theory Spec2Isabelle
  imports Complex_Main
begin

section \<open>JavaScript values used by the transcode manager\<close>

text \<open>
  The manager (class \<open>FFmpegManager\<close>) is written in TypeScript. Optional fields
  (\<open>videoCodec?: string\<close>) are options, and the tests \<open>!x\<close>, \<open>x && y\<close>, \<open>x || d\<close>
  of the source are JavaScript truthiness tests: an absent value, the empty string, the
  number zero and NaN are falsy.
\<close>

datatype jsnum = NaN | PosInfinity | NegInfinity | Num real

fun truthy_num :: "jsnum \<Rightarrow> bool" where
  "truthy_num NaN = False"
| "truthy_num (Num r) = (r \<noteq> 0)"
| "truthy_num PosInfinity = True"
| "truthy_num NegInfinity = True"

fun truthy_str :: "string option \<Rightarrow> bool" where
  "truthy_str None = False"
| "truthy_str (Some s) = (s \<noteq> [])"

fun truthy_optnum :: "jsnum option \<Rightarrow> bool" where
  "truthy_optnum None = False"
| "truthy_optnum (Some n) = truthy_num n"

text \<open>\<open>x || d\<close> on an optional number.\<close>

fun num_or :: "jsnum option \<Rightarrow> jsnum \<Rightarrow> jsnum" where
  "num_or None d = d"
| "num_or (Some n) d = (if truthy_num n then n else d)"

text \<open>\<open>x || d\<close> on an optional string.\<close>

fun str_or :: "string option \<Rightarrow> string \<Rightarrow> string" where
  "str_or None d = d"
| "str_or (Some s) d = (if s \<noteq> [] then s else d)"

text \<open>\<open>s.includes(p)\<close>: \<open>p\<close> occurs in \<open>s\<close> as a contiguous substring.\<close>

fun js_includes :: "string \<Rightarrow> string \<Rightarrow> bool" where
  "js_includes [] p = (p = [])"
| "js_includes (c # cs) p = (take (length p) (c # cs) = p \<or> js_includes cs p)"

text \<open>\<open>s.toLowerCase()\<close> on the ASCII letters (the patterns matched are ASCII).\<close>

definition lower_char :: "char \<Rightarrow> char" where
  "lower_char c =
     (case map_of (zip ''ABCDEFGHIJKLMNOPQRSTUVWXYZ'' ''abcdefghijklmnopqrstuvwxyz'') c of
        None \<Rightarrow> c | Some l \<Rightarrow> l)"

definition toLowerCase :: "string \<Rightarrow> string" where
  "toLowerCase s = map lower_char s"

text \<open>\<open>xs.includes(x)\<close> on an array of strings.\<close>

definition arr_includes :: "string list \<Rightarrow> string \<Rightarrow> bool" where
  "arr_includes xs x = (x \<in> set xs)"

text \<open>Decimal rendering of a non-negative integer, as a template string does.\<close>

definition digit_char :: "nat \<Rightarrow> char" where
  "digit_char d = ''0123456789'' ! d"

function dec_nat :: "nat \<Rightarrow> string" where
  "dec_nat n = (if n < 10 then [digit_char n] else dec_nat (n div 10) @ [digit_char (n mod 10)])"
  by pat_completeness auto
termination
  by (relation "measure id") auto

declare dec_nat.simps [simp del]

section \<open>Data model\<close>

datatype LogLevel = DEBUG | INFO | WARN | ERROR

text \<open>
  A log entry; the free-form \<open>data\<close> payload of the source is not part of the model.
\<close>

record LogEntry =
  timestamp :: nat
  level :: LogLevel
  category :: string
  message :: string
  log_taskId :: "string option"

record HardwareValidationResult =
  isValid :: bool
  encoder :: string
  hardwareType :: string
  errorMessage :: "string option"
  validationTime :: nat

datatype task_status = Pending | Running | Paused | Completed | Failed | Cancelled

record TranscodeOptions =
  outputFormat :: string
  videoCodec :: "string option"
  audioCodec :: "string option"
  videoBitrate :: "string option"
  audioBitrate :: "string option"
  resolution :: "string option"
  fps :: "jsnum option"
  preset :: "string option"
  hardwareAccel :: "string option"
  hwaccelDevice :: "string option"

text \<open>
  A task. \<open>command\<close> is the reference to the encoder command object, here the index
  of the command in the manager's list of commands. The field \<open>stats\<close> of the source is
  never assigned and is left out.
\<close>

record TranscodeTask =
  task_id :: string
  inputFile :: string
  outputFile :: string
  options :: TranscodeOptions
  status :: task_status
  progress :: jsnum
  startTime :: "nat option"
  endTime :: "nat option"
  error :: "string option"
  command :: "nat option"
  logs :: "LogEntry list"

section \<open>Option validation\<close>

text \<open>
  \<open>isStreamCopy\<close> as \<open>startTranscode\<close> computes it: no video codec, no audio codec,
  no resolution, no fps, no video bitrate, and a container of the fixed list.
\<close>

definition streamCopyFormats :: "string list" where
  "streamCopyFormats = [''mp4'', ''avi'', ''mov'', ''flv'', ''mkv'', ''webm'']"

definition isStreamCopy :: "TranscodeOptions \<Rightarrow> bool" where
  "isStreamCopy opts =
     (\<not> truthy_str (videoCodec opts) \<and>
      \<not> truthy_str (audioCodec opts) \<and>
      \<not> truthy_str (resolution opts) \<and>
      \<not> truthy_optnum (fps opts) \<and>
      \<not> truthy_str (videoBitrate opts) \<and>
      arr_includes streamCopyFormats (outputFormat opts))"

text \<open>
  \<open>isStreamCopy\<close> as \<open>applyTranscodeOptions\<close> (the resume path) computes it: only the
  two codecs and the container are looked at.
\<close>

definition isStreamCopy_apply :: "TranscodeOptions \<Rightarrow> bool" where
  "isStreamCopy_apply opts =
     (\<not> truthy_str (videoCodec opts) \<and>
      \<not> truthy_str (audioCodec opts) \<and>
      arr_includes [''mkv'', ''mp4'', ''avi'', ''mov'', ''flv'', ''webm''] (outputFormat opts))"

definition isAudioOnly :: "TranscodeOptions \<Rightarrow> bool" where
  "isAudioOnly opts = (\<not> truthy_str (videoCodec opts) \<and> truthy_str (audioCodec opts))"

definition audioCodecForFormat :: "string \<Rightarrow> string" where
  "audioCodecForFormat f =
     (if f = ''mp3'' then ''libmp3lame''
      else if f = ''aac'' \<or> f = ''mp4'' \<or> f = ''m4a'' then ''aac''
      else if f = ''flac'' then ''flac''
      else if f = ''wav'' then ''pcm_s16le''
      else if f = ''ogg'' then ''libvorbis''
      else ''libmp3lame'')"

definition fixAudioOnly :: "TranscodeOptions \<Rightarrow> TranscodeOptions" where
  "fixAudioOnly opts =
     (let o1 = (if \<not> arr_includes [''mp3'', ''aac'', ''flac'', ''wav'', ''ogg'', ''mp4'', ''m4a'']
                        (outputFormat opts)
                then opts\<lparr>outputFormat := ''mp3''\<rparr> else opts);
          o2 = (if truthy_str (audioCodec o1) \<and>
                   \<not> arr_includes [''aac'', ''libmp3lame'', ''flac'', ''pcm_s16le'', ''libvorbis'']
                        (the (audioCodec o1))
                then o1\<lparr>audioCodec := Some ''libmp3lame''\<rparr> else o1);
          o3 = (if \<not> truthy_str (audioCodec o2)
                then o2\<lparr>audioCodec := Some (audioCodecForFormat (outputFormat o2))\<rparr> else o2)
      in o3)"

definition fixVideo :: "TranscodeOptions \<Rightarrow> TranscodeOptions" where
  "fixVideo opts =
     (let o1 = (if \<not> arr_includes [''mp4'', ''avi'', ''mov'', ''flv'', ''mkv'', ''webm'']
                        (outputFormat opts)
                then opts\<lparr>outputFormat := ''mp4''\<rparr> else opts);
          o2 = (if truthy_str (videoCodec o1) \<and>
                   \<not> arr_includes [''libx264'', ''libx265'', ''libvpx'', ''libvpx-vp9'',
                        ''h264_nvenc'', ''hevc_nvenc'', ''h264_amf'', ''hevc_amf'',
                        ''h264_qsv'', ''hevc_qsv''] (the (videoCodec o1))
                then o1\<lparr>videoCodec := Some ''libx264''\<rparr> else o1);
          o3 = (if truthy_str (audioCodec o2) \<and>
                   \<not> arr_includes [''aac'', ''opus'', ''flac'', ''libvorbis''] (the (audioCodec o2))
                then o2\<lparr>audioCodec := Some ''aac''\<rparr> else o2)
      in if outputFormat o3 = ''flv'' then
           (if audioCodec o3 = Some ''opus'' \<or> audioCodec o3 = Some ''flac''
            then o3\<lparr>audioCodec := Some ''aac''\<rparr> else o3)
         else if outputFormat o3 = ''webm'' then
           (let o4 = (if \<not> truthy_str (videoCodec o3) \<or>
                         \<not> arr_includes [''libvpx'', ''libvpx-vp9''] (the (videoCodec o3))
                      then o3\<lparr>videoCodec := Some ''libvpx-vp9''\<rparr> else o3);
                o5 = (if \<not> truthy_str (audioCodec o4) \<or>
                         \<not> arr_includes [''opus'', ''libvorbis''] (the (audioCodec o4))
                      then o4\<lparr>audioCodec := Some ''opus''\<rparr> else o4)
            in o5)
         else o3)"

definition validateAndFixOptions :: "TranscodeOptions \<Rightarrow> TranscodeOptions" where
  "validateAndFixOptions opts = (if isAudioOnly opts then fixAudioOnly opts else fixVideo opts)"

section \<open>Commands, notifications and the manager's state\<close>

text \<open>
  An encoder command is built by calls of the fluent builder; the model keeps the calls
  in order. Its event handlers are closures over the task id; the handlers installed by
  \<open>startTranscode\<close> also capture the requested output file of the submission.
\<close>

datatype cmd_op =
    Output string
  | Format string
  | OutputOptions "string list"
  | InputOptions "string list"
  | VideoCodec string
  | AudioCodec string
  | VideoBitrate string
  | AudioBitrate string
  | Size string
  | Fps jsnum
  | NoVideo

datatype handler_kind = StartHandlers string | ResumeHandlers

record ffcommand =
  cmd_input :: string
  cmd_ops :: "cmd_op list"
  cmd_task :: string
  cmd_handlers :: handler_kind
  cmd_running :: bool
  cmd_kills :: "string list"

text \<open>A raw progress sample of the encoder library; every field may be missing.\<close>

record raw_progress =
  percent :: "jsnum option"
  timemark :: "string option"
  currentFps :: "jsnum option"
  currentKbps :: "jsnum option"
  targetSize :: "jsnum option"

text \<open>
  Messages sent to the window, one constructor for each channel and payload shape:
  \<^item> \<open>ProgressSample\<close>: channel \<open>ffmpeg:progress\<close> from a progress event
    (task id, progress, status, timemark, fps, kbps, target size, hardware accel);
  \<^item> \<open>StatusUpdate\<close>: channel \<open>ffmpeg:progress\<close> with task id, progress and status;
  \<^item> \<open>ErrorUpdate\<close>: channel \<open>ffmpeg:progress\<close> after a failure
    (task id, progress, status, error, hardware accel);
  \<^item> \<open>CompletedNote\<close>: channel \<open>ffmpeg:completed\<close>
    (task id, output file, duration in ms, duration in s, input size, output size);
    the fields derived with \<open>toFixed\<close> are left out;
  \<^item> \<open>FailedNote\<close>: channel \<open>ffmpeg:failed\<close> (task id, error, input file);
  \<^item> \<open>HardwareFallback\<close>: channel \<open>ffmpeg:hardware-fallback\<close>
    (task id, original hardware accel, error, input file);
  \<^item> \<open>HardwareValidationFailed\<close>: channel \<open>ffmpeg:hardware-validation-failed\<close>.
\<close>

datatype notification =
    ProgressSample string jsnum task_status "string option" "jsnum option" "jsnum option"
      "jsnum option" string
  | StatusUpdate string jsnum task_status
  | ErrorUpdate string jsnum task_status "string option" string
  | CompletedNote string string int int nat nat
  | FailedNote string "string option" string
  | HardwareFallback string string "string option" string
  | HardwareValidationFailed string string string HardwareValidationResult

text \<open>
  The state the manager acts on: the task table, the commands created so far, the global
  log, the messages sent to the window, the paths that exist on disk, and the deletions
  scheduled by \<open>setTimeout\<close>.
\<close>

record manager =
  tasks :: "string \<rightharpoonup> TranscodeTask"
  commands :: "ffcommand list"
  globalLogs :: "LogEntry list"
  sent :: "notification list"
  files :: "string set"
  deleteTimers :: "string list"

datatype probe_event =
    StdoutData string
  | StderrData string
  | TimeoutFired
  | Close "int option"
  | ProcError string

text \<open>
  What the surroundings decide for one call: the clock, the random part of a task id,
  whether a window exists, the number of CPUs, which library calls raise (\<open>kill\<close>,
  \<open>mkdirSync\<close> with its error text, the \<open>unlinkSync\<close> call at a given deletion
  attempt of the call), the sizes \<open>statSync\<close> reports, the functions of the \<open>path\<close> module, and the events of the
  probe process (each with the clock at its arrival). One call reads the clock once.
\<close>

record env =
  now :: nat
  random_suffix :: string
  has_window :: bool
  num_cpus :: nat
  kill_throws :: bool
  mkdir_error :: "string option"
  unlink_throws :: "nat \<Rightarrow> bool"
  file_size :: "string \<Rightarrow> nat option"
  path_basename :: "string \<Rightarrow> string"
  path_basename_ext :: "string \<Rightarrow> string \<Rightarrow> string"
  path_dirname :: "string \<Rightarrow> string"
  path_extname :: "string \<Rightarrow> string"
  path_join :: "string \<Rightarrow> string \<Rightarrow> string"
  probe_events :: "(nat \<times> probe_event) list"

text \<open>\<open>webContents.send\<close>, guarded by \<open>if (mainWindow)\<close>.\<close>

definition send_all :: "env \<Rightarrow> notification list \<Rightarrow> manager \<Rightarrow> manager" where
  "send_all e ns s = (if has_window e then s\<lparr>sent := sent s @ ns\<rparr> else s)"

text \<open>
  \<open>log\<close>: the entry goes to the global log and, when a task id is given and the task
  exists, to the task's log; the global log is cut to its last 5000 entries once it
  exceeds 10000.
\<close>

definition log :: "nat \<Rightarrow> LogLevel \<Rightarrow> string \<Rightarrow> string \<Rightarrow> string option \<Rightarrow> manager \<Rightarrow> manager" where
  "log t lv cat msg tid s =
     (let entry = \<lparr>timestamp = t, level = lv, category = cat, message = msg, log_taskId = tid\<rparr>;
          s1 = s\<lparr>globalLogs := globalLogs s @ [entry]\<rparr>;
          s2 = (if truthy_str tid then
                  (case tasks s1 (the tid) of
                     None \<Rightarrow> s1
                   | Some task \<Rightarrow>
                       s1\<lparr>tasks := (tasks s1)(the tid \<mapsto> task\<lparr>logs := logs task @ [entry]\<rparr>)\<rparr>)
                else s1)
      in if length (globalLogs s2) > 10000
         then s2\<lparr>globalLogs := drop (length (globalLogs s2) - 5000) (globalLogs s2)\<rparr>
         else s2)"

text \<open>\<open>command.kill(signal)\<close> on the command with index \<open>c\<close>.\<close>

definition kill_command :: "nat \<Rightarrow> string \<Rightarrow> manager \<Rightarrow> manager" where
  "kill_command c sig s =
     (if c < length (commands s)
      then s\<lparr>commands := (commands s)[c := (commands s ! c)\<lparr>cmd_kills := cmd_kills (commands s ! c) @ [sig]\<rparr>]\<rparr>
      else s)"

section \<open>Hardware encoder validation\<close>

text \<open>
  \<open>validateHardwareEncoder\<close> returns a promise. For the families nvenc, amf and qsv it
  spawns a probe process (\<open>ffmpeg -hide_banner -encoders\<close>), arms a timer of 10 seconds
  and installs handlers for the process's \<open>close\<close> and \<open>error\<close> events; for any other
  family it resolves at once. A promise keeps the first value it is resolved with.
\<close>

record probe =
  testCodec :: string
  probe_hw :: string
  probe_start :: nat
  probe_stdout :: string
  probe_stderr :: string
  probe_spawned :: bool
  timer_armed :: bool
  probe_kills :: "string list"
  resolved :: "HardwareValidationResult option"

definition resolve :: "HardwareValidationResult \<Rightarrow> probe \<Rightarrow> probe" where
  "resolve r p = (if resolved p = None then p\<lparr>resolved := Some r\<rparr> else p)"

definition hwTestCodec :: "string \<Rightarrow> string \<Rightarrow> string option" where
  "hwTestCodec hw codec =
     (if hw = ''nvenc'' then
        Some (if codec = ''libx264'' then ''h264_nvenc''
              else if codec = ''libx265'' then ''hevc_nvenc'' else codec)
      else if hw = ''amf'' then
        Some (if codec = ''libx264'' then ''h264_amf''
              else if codec = ''libx265'' then ''hevc_amf'' else codec)
      else if hw = ''qsv'' then
        Some (if codec = ''libx264'' then ''h264_qsv''
              else if codec = ''libx265'' then ''hevc_qsv'' else codec)
      else None)"

definition validate_start :: "nat \<Rightarrow> string \<Rightarrow> string \<Rightarrow> manager \<Rightarrow> probe \<times> manager" where
  "validate_start t hw codec s =
     (case hwTestCodec hw codec of
        None \<Rightarrow>
          (\<lparr>testCodec = codec, probe_hw = hw, probe_start = t, probe_stdout = [],
            probe_stderr = [], probe_spawned = False, timer_armed = False, probe_kills = [],
            resolved = Some \<lparr>isValid = True, encoder = codec, hardwareType = hw,
                             errorMessage = None, validationTime = 0\<rparr>\<rparr>, s)
      | Some tc \<Rightarrow>
          (\<lparr>testCodec = tc, probe_hw = hw, probe_start = t, probe_stdout = [],
            probe_stderr = [], probe_spawned = True, timer_armed = True, probe_kills = [],
            resolved = None\<rparr>,
           log t INFO ''HARDWARE'' (''start validating hardware encoder: '' @ tc) None s))"

definition code_str :: "int option \<Rightarrow> string" where
  "code_str c =
     (case c of None \<Rightarrow> ''null''
      | Some n \<Rightarrow> (if n < 0 then ''-'' @ dec_nat (nat (- n)) else dec_nat (nat n)))"

fun probe_step :: "nat \<times> probe_event \<Rightarrow> probe \<times> manager \<Rightarrow> probe \<times> manager" where
  "probe_step (t, StdoutData d) (p, s) = (p\<lparr>probe_stdout := probe_stdout p @ d\<rparr>, s)"
| "probe_step (t, StderrData d) (p, s) = (p\<lparr>probe_stderr := probe_stderr p @ d\<rparr>, s)"
| "probe_step (t, TimeoutFired) (p, s) =
     (if timer_armed p then
        (resolve \<lparr>isValid = False, encoder = testCodec p, hardwareType = probe_hw p,
                  errorMessage = Some ''Validation timeout'',
                  validationTime = t - probe_start p\<rparr>
           (p\<lparr>timer_armed := False, probe_kills := probe_kills p @ [''SIGTERM'']\<rparr>),
         log t WARN ''HARDWARE'' (''hardware encoder validation timeout: '' @ testCodec p) None s)
      else (p, s))"
| "probe_step (t, Close code) (p, s) =
     (let p1 = p\<lparr>timer_armed := False\<rparr>; vt = t - probe_start p in
      if code = Some 0 then
        (if js_includes (probe_stdout p) (testCodec p) \<or> js_includes (probe_stderr p) (testCodec p)
         then (resolve \<lparr>isValid = True, encoder = testCodec p, hardwareType = probe_hw p,
                         errorMessage = None, validationTime = vt\<rparr> p1,
               log t INFO ''HARDWARE'' (''hardware encoder validated: '' @ testCodec p) None s)
         else (resolve \<lparr>isValid = False, encoder = testCodec p, hardwareType = probe_hw p,
                         errorMessage = Some (''Encoder '' @ testCodec p @
                                              '' not available in this FFmpeg build''),
                         validationTime = vt\<rparr> p1,
               log t WARN ''HARDWARE'' (''hardware encoder does not exist: '' @ testCodec p) None s))
      else
        (resolve \<lparr>isValid = False, encoder = testCodec p, hardwareType = probe_hw p,
                  errorMessage = Some (''FFmpeg command failed (exit code: '' @ code_str code @ '')''),
                  validationTime = vt\<rparr> p1,
         log t ERROR ''HARDWARE'' (''hardware encoder validation failed: '' @ testCodec p) None s))"
| "probe_step (t, ProcError m) (p, s) =
     (resolve \<lparr>isValid = False, encoder = testCodec p, hardwareType = probe_hw p,
               errorMessage = Some m, validationTime = t - probe_start p\<rparr>
        (p\<lparr>timer_armed := False\<rparr>),
      log t ERROR ''HARDWARE'' (''hardware encoder validation failed: '' @ testCodec p) None s)"

text \<open>
  Awaiting the promise: the events are handled in order until the promise is resolved.
  When the events run out before that, the caller never continues (\<open>None\<close>).
\<close>

fun await_probe :: "(nat \<times> probe_event) list \<Rightarrow> probe \<times> manager
    \<Rightarrow> (HardwareValidationResult \<times> manager) option" where
  "await_probe [] (p, s) = (case resolved p of Some r \<Rightarrow> Some (r, s) | None \<Rightarrow> None)"
| "await_probe (ev # evs) (p, s) =
     (case resolved p of
        Some r \<Rightarrow> Some (r, s)
      | None \<Rightarrow> await_probe evs (probe_step ev (p, s)))"

definition validateHardwareEncoder :: "env \<Rightarrow> string \<Rightarrow> string \<Rightarrow> manager
    \<Rightarrow> (HardwareValidationResult \<times> manager) option" where
  "validateHardwareEncoder e hw codec s =
     await_probe (probe_events e) (validate_start (now e) hw codec s)"




section \<open>Submitting a job: \<open>startTranscode\<close>\<close>

record transcode_request =
  req_inputFile :: string
  req_outputFile :: string
  req_options :: TranscodeOptions

definition generateTaskId :: "env \<Rightarrow> string" where
  "generateTaskId e = ''task_'' @ dec_nat (now e) @ ''_'' @ random_suffix e"

text \<open>
  The safe file name: characters other than \<open>\w\<close>, \<open>\s\<close> and \<open>-\<close> are removed, each run
  of white space becomes one underscore, and the name is cut to 30 characters.
\<close>

definition is_word_char :: "char \<Rightarrow> bool" where
  "is_word_char c =
     (c \<in> set ''ABCDEFGHIJKLMNOPQRSTUVWXYZabcdefghijklmnopqrstuvwxyz0123456789_'')"

definition is_space_char :: "char \<Rightarrow> bool" where
  "is_space_char c = (c \<in> set [CHR '' '', CHR 0x09, CHR 0x0A, CHR 0x0B, CHR 0x0C, CHR 0x0D])"

function collapse_spaces :: "string \<Rightarrow> string" where
  "collapse_spaces [] = []"
| "collapse_spaces (c # cs) =
     (if is_space_char c then CHR ''_'' # collapse_spaces (dropWhile is_space_char cs)
      else c # collapse_spaces cs)"
  by pat_completeness auto
termination
  by (relation "measure length") (auto simp: length_dropWhile_le less_Suc_eq_le)

definition safeName :: "string \<Rightarrow> string" where
  "safeName n =
     (let m = take 30 (collapse_spaces
                (filter (\<lambda>c. is_word_char c \<or> is_space_char c \<or> c = CHR ''-'') n))
      in if length m = 0 then ''converted_video'' else m)"

definition formatExt :: "string \<Rightarrow> string" where
  "formatExt f =
     (case map_of [(''mp4'', ''.mp4''), (''avi'', ''.avi''), (''mov'', ''.mov''),
                   (''mkv'', ''.mkv''), (''flv'', ''.flv''), (''webm'', ''.webm''),
                   (''mp3'', ''.mp3''), (''aac'', ''.aac''), (''flac'', ''.flac''),
                   (''wav'', ''.wav''), (''ogg'', ''.ogg'')] f of
        None \<Rightarrow> ''.mp4'' | Some x \<Rightarrow> x)"

definition formatName :: "string \<Rightarrow> string" where
  "formatName f =
     (case map_of [(''mkv'', ''matroska''), (''mp4'', ''mp4''), (''avi'', ''avi''),
                   (''mov'', ''mov''), (''flv'', ''flv''), (''webm'', ''webm''),
                   (''mp3'', ''mp3''), (''aac'', ''adts''), (''flac'', ''flac''),
                   (''wav'', ''wav''), (''ogg'', ''ogg'')] f of
        None \<Rightarrow> f | Some x \<Rightarrow> x)"

definition safeOutputFile :: "env \<Rightarrow> transcode_request \<Rightarrow> string" where
  "safeOutputFile e r =
     (let fileName = path_basename e (req_outputFile r);
          dir = path_dirname e (req_outputFile r);
          nameWithoutExt = safeName (path_basename_ext e fileName (path_extname e fileName));
          correctExt = formatExt (outputFormat (req_options r))
      in path_join e dir (nameWithoutExt @ ''_'' @ dec_nat (now e) @ correctExt))"

definition numberedOutputFile :: "env \<Rightarrow> string \<Rightarrow> nat \<Rightarrow> string" where
  "numberedOutputFile e outFile counter =
     (let ext = path_extname e outFile;
          baseName = path_basename_ext e outFile ext;
          dir = path_dirname e outFile
      in path_join e dir (baseName @ ''_'' @ dec_nat counter @ ext))"

text \<open>
  The loop \<open>while (fs.existsSync(finalOutputFile))\<close>; it has no bound in the source, so
  not returning is the value \<open>None\<close>.
\<close>

partial_function (option) freeOutputFile ::
    "env \<Rightarrow> string set \<Rightarrow> string \<Rightarrow> string \<Rightarrow> nat \<Rightarrow> string option" where
  "freeOutputFile e fs outFile cur counter =
     (if cur \<in> fs
      then freeOutputFile e fs outFile (numberedOutputFile e outFile counter) (counter + 1)
      else Some cur)"

definition hwAccelOn :: "TranscodeOptions \<Rightarrow> bool" where
  "hwAccelOn opts = (truthy_str (hardwareAccel opts) \<and> hardwareAccel opts \<noteq> Some ''none'')"

definition hwInputOptions :: "string \<Rightarrow> cmd_op list" where
  "hwInputOptions hw =
     (if hw = ''nvenc'' then
        [InputOptions [''-hwaccel'', ''cuda'', ''-hwaccel_output_format'', ''cuda'']]
      else if hw = ''amf'' then [InputOptions [''-hwaccel'', ''d3d11va'']]
      else if hw = ''qsv'' then [InputOptions [''-hwaccel'', ''qsv'']]
      else if hw = ''d3d11va'' then [InputOptions [''-hwaccel'', ''d3d11va'']]
      else if hw = ''dxva2'' then [InputOptions [''-hwaccel'', ''dxva2'']]
      else [])"

definition hwCodec :: "string \<Rightarrow> string \<Rightarrow> string" where
  "hwCodec hw codec =
     (if hw = ''nvenc'' then
        (if codec = ''libx264'' then ''h264_nvenc''
         else if codec = ''libx265'' then ''hevc_nvenc'' else codec)
      else if hw = ''amf'' then
        (if codec = ''libx264'' then ''h264_amf''
         else if codec = ''libx265'' then ''hevc_amf'' else codec)
      else if hw = ''qsv'' then
        (if codec = ''libx264'' then ''h264_qsv''
         else if codec = ''libx265'' then ''hevc_qsv'' else codec)
      else codec)"

definition nvencPreset :: "string \<Rightarrow> string \<times> string" where
  "nvencPreset p =
     (if p = ''ultrafast'' \<or> p = ''superfast'' \<or> p = ''veryfast'' then (''p1'', ''28'')
      else if p = ''faster'' \<or> p = ''fast'' then (''p2'', ''25'')
      else if p = ''medium'' then (''p4'', ''23'')
      else if p = ''slow'' then (''p6'', ''20'')
      else if p = ''slower'' \<or> p = ''veryslow'' then (''p7'', ''18'')
      else (''p4'', ''23''))"

definition amfQuality :: "string \<Rightarrow> string \<times> string" where
  "amfQuality p =
     (if p = ''ultrafast'' \<or> p = ''superfast'' \<or> p = ''veryfast'' then (''28'', ''40'')
      else if p = ''faster'' \<or> p = ''fast'' then (''22'', ''32'')
      else if p = ''medium'' then (''18'', ''28'')
      else if p = ''slow'' then (''12'', ''22'')
      else if p = ''slower'' \<or> p = ''veryslow'' then (''8'', ''18'')
      else (''18'', ''28''))"

definition applyEncoderOptimizations :: "string \<Rightarrow> TranscodeOptions \<Rightarrow> cmd_op list" where
  "applyEncoderOptimizations codec opts =
     (let presetValue = str_or (preset opts) ''medium'' in
      if js_includes codec ''nvenc'' then
        [OutputOptions [''-preset'', fst (nvencPreset presetValue), ''-tune'', ''hq'',
                        ''-profile:v'', ''high'', ''-rc'', ''vbr_hq'',
                        ''-cq'', snd (nvencPreset presetValue),
                        ''-spatial_aq'', ''1'', ''-rc-lookahead'', ''32'']]
      else if js_includes codec ''amf'' then
        [OutputOptions [''-rc'', ''vbr_peak'', ''-qmin'', fst (amfQuality presetValue),
                        ''-qmax'', snd (amfQuality presetValue)]]
      else [])"

definition autoBitrate :: "string \<Rightarrow> string" where
  "autoBitrate res =
     (if js_includes res ''640x360'' \<or> js_includes res ''360p'' then ''500k''
      else if js_includes res ''1280x720'' \<or> js_includes res ''720p'' then ''1500k''
      else if js_includes res ''1920x1080'' \<or> js_includes res ''1080p'' then ''3000k''
      else if js_includes res ''2560x1440'' \<or> js_includes res ''1440p'' then ''6000k''
      else if js_includes res ''3840x2160'' \<or> js_includes res ''4K'' then ''12000k''
      else ''1000k'')"

definition analysisInputOptions :: cmd_op where
  "analysisInputOptions =
     InputOptions [''-fflags'', ''+genpts+igndts'', ''-analyzeduration'', ''10000000'',
                   ''-probesize'', ''10000000'']"

definition startCopyOps :: "cmd_op list" where
  "startCopyOps =
     [OutputOptions [''-c'', ''copy'', ''-avoid_negative_ts'', ''make_zero'', ''-fflags'', ''+genpts'']]"

definition startPreOps :: "env \<Rightarrow> TranscodeOptions \<Rightarrow> cmd_op list" where
  "startPreOps e opts =
     [OutputOptions [''-threads'', dec_nat (min (num_cpus e) 8)], analysisInputOptions] @
     (if hwAccelOn opts then hwInputOptions (the (hardwareAccel opts))
      else [OutputOptions [''-preset'', ''fast'', ''-tune'', ''film'', ''-x264-params'',
              ''ref=3:bframes=3:b-adapt=1:direct=auto:me=hex:subme=6:mixed-refs=1:trellis=1'']])"

definition startPostOps :: "TranscodeOptions \<Rightarrow> cmd_op list" where
  "startPostOps opts =
     (if truthy_str (audioCodec opts) then
        AudioCodec (the (audioCodec opts)) #
        (if audioCodec opts = Some ''aac'' then [OutputOptions [''-aac_coder'', ''twoloop'']] else [])
      else []) @
     (if truthy_str (videoBitrate opts) then [VideoBitrate (the (videoBitrate opts))]
      else if truthy_str (resolution opts) then [VideoBitrate (autoBitrate (the (resolution opts)))]
      else []) @
     [AudioBitrate (str_or (audioBitrate opts) ''128k'')] @
     (if truthy_str (resolution opts) then [Size (the (resolution opts))] else []) @
     (if truthy_optnum (fps opts) then [Fps (the (fps opts))] else [])"

text \<open>
  A task object is reached through the table: assignments to the fields of the task
  captured by a handler, followed by \<open>this.tasks.set(taskId, task)\<close>, update the entry
  of the table. (Tasks are never removed from the table, and the model identifies a task
  object with the entry under its id.)
\<close>

definition update_task :: "string \<Rightarrow> (TranscodeTask \<Rightarrow> TranscodeTask) \<Rightarrow> manager \<Rightarrow> manager" where
  "update_task k f s =
     (case tasks s k of None \<Rightarrow> s | Some t \<Rightarrow> s\<lparr>tasks := (tasks s)(k \<mapsto> f t)\<rparr>)"

text \<open>
  The choice of the video encoder in \<open>startTranscode\<close>, with the awaited validation of
  the hardware encoder. The result is the builder calls and the new state; \<open>None\<close> when
  the validation never resolves.
\<close>

definition startVideoCodec :: "env \<Rightarrow> string \<Rightarrow> TranscodeOptions \<Rightarrow> manager
    \<Rightarrow> (cmd_op list \<times> manager) option" where
  "startVideoCodec e taskId opts s =
     (if truthy_str (videoCodec opts) then
        (let codec = the (videoCodec opts) in
         if hwAccelOn opts then
           (case validateHardwareEncoder e (the (hardwareAccel opts)) codec s of
              None \<Rightarrow> None
            | Some (vr, s1) \<Rightarrow>
                (let s2 = log (now e) INFO ''HARDWARE'' ''hardware encoder validation result''
                            (Some taskId) s1
                 in if \<not> isValid vr then
                      (let s3 = log (now e) WARN ''HARDWARE''
                                  ''hardware encoder validation failed, falling back to software encoding''
                                  (Some taskId) s2;
                           s4 = send_all e [HardwareValidationFailed taskId
                                  (the (hardwareAccel opts)) codec vr] s3;
                           s5 = update_task taskId
                                  (\<lambda>t. t\<lparr>options := (options t)\<lparr>hardwareAccel := Some ''none''\<rparr>\<rparr>) s4
                       in Some (VideoCodec codec #
                                applyEncoderOptimizations codec (opts\<lparr>hardwareAccel := Some ''none''\<rparr>),
                                s5))
                    else
                      (let codec' = hwCodec (the (hardwareAccel opts)) codec;
                           s3 = log (now e) INFO ''HARDWARE'' ''hardware encoder validation succeeded''
                                  (Some taskId) s2
                       in Some (VideoCodec codec' # applyEncoderOptimizations codec' opts, s3))))
         else Some (VideoCodec codec # applyEncoderOptimizations codec opts, s))
      else Some ([], s))"

text \<open>
  The end of \<open>startTranscode\<close>: the command, with the handlers of a submission, is stored
  on the task, the task becomes running and the command is run.
\<close>

definition launch :: "transcode_request \<Rightarrow> string \<Rightarrow> cmd_op list \<Rightarrow> manager \<Rightarrow> manager" where
  "launch r taskId ops s =
     (let c = length (commands s);
          cmd = \<lparr>cmd_input = req_inputFile r, cmd_ops = ops, cmd_task = taskId,
                 cmd_handlers = StartHandlers (req_outputFile r), cmd_running = True,
                 cmd_kills = []\<rparr>
      in update_task taskId (\<lambda>t. t\<lparr>command := Some c, status := Running\<rparr>)
           (s\<lparr>commands := commands s @ [cmd]\<rparr>))"

text \<open>
  The message of the error thrown when the output directory cannot be created (the
  Chinese text of the source's messages is rendered in English throughout).
\<close>

definition mkdir_failed_message :: "string \<Rightarrow> string \<Rightarrow> string" where
  "mkdir_failed_message outputDir err =
     ''cannot create output directory: '' @ outputDir @ '', error: '' @ err"

text \<open>
  \<open>startTranscode\<close>. The result is \<open>None\<close> when the call never returns,
  \<open>Some (Inl msg)\<close> when it throws (nothing has been changed then), and
  \<open>Some (Inr (taskId, s'))\<close> when it returns the id of the new task.
\<close>

definition startTranscode :: "env \<Rightarrow> transcode_request \<Rightarrow> manager
    \<Rightarrow> (string + string \<times> manager) option" where
  "startTranscode e r s =
     (let taskId = generateTaskId e;
          outFile = safeOutputFile e r;
          copy = isStreamCopy (req_options r);
          opts = (if \<not> copy then validateAndFixOptions (req_options r) else req_options r);
          outputDir = path_dirname e outFile
      in if outputDir \<notin> files s \<and> mkdir_error e \<noteq> None then
           Some (Inl (mkdir_failed_message outputDir (the (mkdir_error e))))
         else
           (let s1 = (if outputDir \<notin> files s then s\<lparr>files := insert outputDir (files s)\<rparr> else s)
            in case freeOutputFile e (files s1) outFile outFile 1 of
                 None \<Rightarrow> None
               | Some finalOutputFile \<Rightarrow>
                   (let task = \<lparr>task_id = taskId, inputFile = req_inputFile r,
                                 outputFile = finalOutputFile, options = opts,
                                 status = Pending, progress = Num 0,
                                 startTime = Some (now e), endTime = None, error = None,
                                 command = None, logs = []\<rparr>;
                        s2 = s1\<lparr>tasks := (tasks s1)(taskId \<mapsto> task)\<rparr>;
                        ops0 = Output finalOutputFile #
                               (if outputFormat opts \<noteq> [] then [Format (formatName (outputFormat opts))]
                                else [])
                    in if copy then
                         Some (Inr (taskId, launch r taskId (ops0 @ startCopyOps) s2))
                       else
                         (case startVideoCodec e taskId opts s2 of
                            None \<Rightarrow> None
                          | Some (vops, s3) \<Rightarrow>
                              Some (Inr (taskId,
                                launch r taskId
                                  (ops0 @ startPreOps e opts @ vops @ startPostOps opts) s3))))))"




section \<open>Files\<close>

text \<open>
  The encoder process writes its output file while it runs; this is the only change of
  the disk that does not come from the manager.
\<close>

definition encoder_writes :: "string \<Rightarrow> manager \<Rightarrow> manager" where
  "encoder_writes f s = s\<lparr>files := insert f (files s)\<rparr>"


text \<open>
  \<open>if (fs.existsSync(f)) { try { fs.unlinkSync(f) } catch { } }\<close>, the deletion used by
  the error handlers; \<open>i\<close> names the deletion attempt of the call.
\<close>

definition delete_best_effort :: "env \<Rightarrow> nat \<Rightarrow> string \<Rightarrow> manager \<Rightarrow> manager" where
  "delete_best_effort e i f s =
     (if f \<in> files s \<and> \<not> unlink_throws e i then s\<lparr>files := files s - {f}\<rparr> else s)"

text \<open>
  \<open>safeDeleteFile\<close>: up to \<open>maxRetries\<close> attempts; an attempt succeeds when the file
  does not exist or \<open>unlinkSync\<close> does not raise. \<open>i\<close> is the loop counter and \<open>k\<close>
  the number of attempts left.
\<close>

fun safeDeleteLoop :: "env \<Rightarrow> string \<Rightarrow> nat \<Rightarrow> nat \<Rightarrow> string set \<Rightarrow> bool \<times> string set" where
  "safeDeleteLoop e f i 0 fs = (False, fs)"
| "safeDeleteLoop e f i (Suc k) fs =
     (if f \<in> fs then
        (if unlink_throws e i then safeDeleteLoop e f (Suc i) k fs else (True, fs - {f}))
      else (True, fs))"

definition safeDeleteFile :: "env \<Rightarrow> string \<Rightarrow> manager \<Rightarrow> bool \<times> manager" where
  "safeDeleteFile e f s =
     (let r = safeDeleteLoop e f 0 3 (files s) in (fst r, s\<lparr>files := snd r\<rparr>))"

section \<open>Handlers of the encoder's events\<close>

text \<open>
  An event is delivered to the handlers of the command that emitted it. The handlers of
  \<open>startTranscode\<close> and of \<open>resumeTranscode\<close> are written out separately in the source;
  where they differ the model branches on \<open>cmd_handlers\<close>.
\<close>

definition on_progress :: "env \<Rightarrow> nat \<Rightarrow> raw_progress \<Rightarrow> manager \<Rightarrow> manager" where
  "on_progress e c raw s =
     (if c < length (commands s) then
        (let taskId = cmd_task (commands s ! c);
             s1 = update_task taskId
                    (\<lambda>t. t\<lparr>progress := num_or (percent raw) (Num 0), status := Running\<rparr>) s
         in case tasks s1 taskId of
              None \<Rightarrow> s1
            | Some task \<Rightarrow>
                send_all e [ProgressSample taskId (progress task) (status task) (timemark raw)
                              (currentFps raw) (currentKbps raw) (targetSize raw)
                              (str_or (hardwareAccel (options task)) ''none'')] s1)
      else s)"

definition fileSizes :: "env \<Rightarrow> TranscodeTask \<Rightarrow> nat \<times> nat" where
  "fileSizes e task =
     (case file_size e (inputFile task) of
        None \<Rightarrow> (0, 0)
      | Some i \<Rightarrow> (case file_size e (outputFile task) of None \<Rightarrow> (i, 0) | Some out \<Rightarrow> (i, out)))"

definition on_end :: "env \<Rightarrow> nat \<Rightarrow> manager \<Rightarrow> manager" where
  "on_end e c s =
     (if c < length (commands s) then
        (let cmd = commands s ! c;
             taskId = cmd_task cmd;
             s1 = update_task taskId
                    (\<lambda>t. t\<lparr>status := Completed, progress := Num 100, endTime := Some (now e)\<rparr>) s
         in case tasks s1 taskId of
              None \<Rightarrow> s1
            | Some task \<Rightarrow>
                (case cmd_handlers cmd of
                   ResumeHandlers \<Rightarrow> send_all e [StatusUpdate taskId (Num 100) Completed] s1
                 | StartHandlers reqOut \<Rightarrow>
                     (case startTime task of
                        None \<Rightarrow> s1
                      | Some st \<Rightarrow>
                          (let duration = int (now e) - int st;
                               durationSeconds = (duration + 500) div 1000
                           in send_all e
                                [StatusUpdate taskId (Num 100) Completed,
                                 CompletedNote taskId (outputFile task) duration durationSeconds
                                   (fst (fileSizes e task)) (snd (fileSizes e task))] s1))))
      else s)"

definition hardwareAccelErrorPatterns :: "string list" where
  "hardwareAccelErrorPatterns =
     [''No NVENC capable devices found'',
      ''Driver does not support the required nvenc API version'',
      ''NVENC initialization failed'',
      ''NV_ENC_ERR_OUT_OF_MEMORY'',
      ''NV_ENC_ERR_INVALID_PARAM'',
      ''NV_ENC_ERR_INVALID_VERSION'',
      ''CUDA error'',
      ''CUDA initialization failed'',
      ''AMF initialization failed'',
      ''AMF encoder not available'',
      ''AMF context creation failed'',
      ''QSV initialization failed'',
      ''MFX_ERR_UNSUPPORTED'',
      ''MFX_ERR_DEVICE_FAILED'',
      ''Hardware acceleration not available'',
      ''No device available'',
      ''Failed to initialize hardware'',
      ''Unknown encoder'',
      ''Encoder not found'',
      ''hwaccel'',
      ''Invalid hwaccel type'']"

definition isHardwareAccelError :: "string option \<Rightarrow> bool" where
  "isHardwareAccelError msg =
     (if \<not> truthy_str msg then False
      else list_ex (\<lambda>pattern. js_includes (toLowerCase (the msg)) (toLowerCase pattern))
             hardwareAccelErrorPatterns)"

text \<open>The text of an optional message inside a template string.\<close>

definition msg_text :: "string option \<Rightarrow> string" where
  "msg_text msg = (case msg of None \<Rightarrow> ''undefined'' | Some m \<Rightarrow> m)"

text \<open>
  The two texts the error handler stores in \<open>task.error\<close> around a fallback: the one
  naming the new task, and the one combining the encoder's error with the error thrown by
  the re-submission (an \<open>Error\<close> object in a template string).
\<close>

definition switched_message :: "string \<Rightarrow> string" where
  "switched_message newTaskId =
     ''hardware acceleration failed, switched to software encoding (new task ID: '' @
     newTaskId @ '')''"

definition fallback_failed_message :: "string option \<Rightarrow> string \<Rightarrow> string" where
  "fallback_failed_message msg fallbackError =
     ''hardware acceleration failed: '' @ msg_text msg @
     '', software encoding fallback failed too: Error: '' @ fallbackError"

text \<open>
  The request of the fallback job. The handlers of a submission spread the captured
  request (its input file is the task's input file, its output file the requested one);
  the handlers of a resume take both paths from the task. In both, the options are the
  task's options with \<open>hardwareAccel\<close> set to \<open>none\<close>.
\<close>

definition fallback_request :: "handler_kind \<Rightarrow> TranscodeTask \<Rightarrow> transcode_request" where
  "fallback_request h task =
     \<lparr>req_inputFile = inputFile task,
      req_outputFile = (case h of StartHandlers reqOut \<Rightarrow> reqOut | ResumeHandlers \<Rightarrow> outputFile task),
      req_options = (options task)\<lparr>hardwareAccel := Some ''none''\<rparr>\<rparr>"

text \<open>
  The common end of a failure: the end time is set, the handlers of a submission delete
  the output file, and the failure is sent to the window (the handlers of a resume send
  no \<open>ffmpeg:failed\<close> message).
\<close>

definition fail_finish :: "env \<Rightarrow> handler_kind \<Rightarrow> string \<Rightarrow> manager \<Rightarrow> manager" where
  "fail_finish e h taskId s =
     (let s1 = update_task taskId (\<lambda>t. t\<lparr>endTime := Some (now e)\<rparr>) s in
      case tasks s1 taskId of
        None \<Rightarrow> s1
      | Some task \<Rightarrow>
          (case h of
             StartHandlers reqOut \<Rightarrow>
               send_all e
                 [ErrorUpdate taskId (progress task) (status task) (error task)
                    (str_or (hardwareAccel (options task)) ''none''),
                  FailedNote taskId (error task) (inputFile task)]
                 (delete_best_effort e 1 (outputFile task) s1)
           | ResumeHandlers \<Rightarrow>
               send_all e
                 [ErrorUpdate taskId (progress task) (status task) (error task)
                    (str_or (hardwareAccel (options task)) ''none'')] s1))"

text \<open>
  The \<open>error\<close> handler. The result is \<open>None\<close> when the awaited re-submission never
  returns.
\<close>

definition on_error :: "env \<Rightarrow> nat \<Rightarrow> string option \<Rightarrow> manager \<Rightarrow> manager option" where
  "on_error e c msg s =
     (if c < length (commands s) then
        (let cmd = commands s ! c; taskId = cmd_task cmd in
         case tasks s taskId of
           None \<Rightarrow> Some s
         | Some task \<Rightarrow>
             if status task = Paused then Some s
             else if truthy_str msg \<and> js_includes (the msg) ''SIGTERM'' \<and> status task = Pending
             then Some s
             else if isHardwareAccelError msg \<and> hwAccelOn (options task) then
               (let s1 = delete_best_effort e 0 (outputFile task) s;
                    s2 = send_all e [HardwareFallback taskId (the (hardwareAccel (options task)))
                                       msg (inputFile task)] s1
                in case startTranscode e (fallback_request (cmd_handlers cmd) task) s2 of
                     None \<Rightarrow> None
                   | Some (Inr (newTaskId, s3)) \<Rightarrow>
                       Some (update_task taskId
                               (\<lambda>t. t\<lparr>status := Cancelled,
                                      error := Some (switched_message newTaskId)\<rparr>) s3)
                   | Some (Inl fallbackError) \<Rightarrow>
                       Some (fail_finish e (cmd_handlers cmd) taskId
                               (update_task taskId
                                  (\<lambda>t. t\<lparr>status := Pending, progress := Num 0,
                                         error := Some (fallback_failed_message msg fallbackError)\<rparr>)
                                  s2)))
             else
               Some (fail_finish e (cmd_handlers cmd) taskId
                       (update_task taskId
                          (\<lambda>t. t\<lparr>status := Pending, progress := Num 0, error := msg\<rparr>) s)))
      else Some s)"

section \<open>Commands of the caller: pause, resume, cancel\<close>

definition pauseTranscode :: "env \<Rightarrow> string \<Rightarrow> manager \<Rightarrow> bool \<times> manager" where
  "pauseTranscode e taskId s =
     (case tasks s taskId of
        None \<Rightarrow> (False, s)
      | Some task \<Rightarrow>
          if command task = None \<or> status task \<noteq> Running then (False, s)
          else if kill_throws e then (False, s)
          else
            (let s1 = kill_command (the (command task)) ''SIGTERM'' s;
                 s2 = update_task taskId (\<lambda>t. t\<lparr>status := Paused, endTime := Some (now e)\<rparr>) s1
             in (True, send_all e [StatusUpdate taskId (progress task) Paused] s2)))"

definition cancelTranscode :: "env \<Rightarrow> string \<Rightarrow> manager \<Rightarrow> bool \<times> manager" where
  "cancelTranscode e taskId s =
     (case tasks s taskId of
        None \<Rightarrow> (False, s)
      | Some task \<Rightarrow>
          if command task = None then (False, s)
          else if kill_throws e then (False, s)
          else
            (let s1 = kill_command (the (command task)) ''SIGTERM'' s;
                 s2 = update_task taskId
                        (\<lambda>t. t\<lparr>status := Pending, progress := Num 0, endTime := Some (now e)\<rparr>) s1;
                 s3 = s2\<lparr>deleteTimers := deleteTimers s2 @ [outputFile task]\<rparr>
             in (True, send_all e [StatusUpdate taskId (Num 0) Pending] s3)))"

text \<open>The timer set by \<open>cancelTranscode\<close> fires: the first scheduled deletion runs.\<close>

definition on_delete_timer :: "env \<Rightarrow> manager \<Rightarrow> manager" where
  "on_delete_timer e s =
     (case deleteTimers s of
        [] \<Rightarrow> s
      | f # fs \<Rightarrow> snd (safeDeleteFile e f (s\<lparr>deleteTimers := fs\<rparr>)))"





section \<open>A concrete environment and concrete states\<close>

text \<open>
  An environment for running the model on examples: the clock reads 5, a window exists,
  no library call raises, and the \<open>path\<close> functions work on \<open>/\<close>-separated paths.
\<close>

definition demo_basename :: "string \<Rightarrow> string" where
  "demo_basename p = rev (takeWhile (\<lambda>c. c \<noteq> CHR ''/'') (rev p))"

definition demo_dirname :: "string \<Rightarrow> string" where
  "demo_dirname p =
     (let d = rev (drop 1 (dropWhile (\<lambda>c. c \<noteq> CHR ''/'') (rev p)))
      in if d = [] then ''.'' else d)"

definition demo_extname :: "string \<Rightarrow> string" where
  "demo_extname p =
     (let b = demo_basename p; r = takeWhile (\<lambda>c. c \<noteq> CHR ''.'') (rev b)
      in if length r = length b then [] else CHR ''.'' # rev r)"

definition demo_basename_ext :: "string \<Rightarrow> string \<Rightarrow> string" where
  "demo_basename_ext p ext =
     (let b = demo_basename p
      in if ext \<noteq> [] \<and> drop (length b - length ext) b = ext
         then take (length b - length ext) b else b)"

definition demo_join :: "string \<Rightarrow> string \<Rightarrow> string" where
  "demo_join d f = d @ ''/'' @ f"

definition demo_env :: env where
  "demo_env =
     \<lparr>now = 5, random_suffix = ''abc'', has_window = True, num_cpus = 4,
      kill_throws = False, mkdir_error = None, unlink_throws = (\<lambda>i. False),
      file_size = (\<lambda>p. None), path_basename = demo_basename,
      path_basename_ext = demo_basename_ext, path_dirname = demo_dirname,
      path_extname = demo_extname, path_join = demo_join, probe_events = []\<rparr>"

definition empty_manager :: manager where
  "empty_manager =
     \<lparr>tasks = Map.empty, commands = [], globalLogs = [], sent = [], files = {},
      deleteTimers = []\<rparr>"

definition copy_options :: TranscodeOptions where
  "copy_options =
     \<lparr>outputFormat = ''mp4'', videoCodec = None, audioCodec = None, videoBitrate = None,
      audioBitrate = None, resolution = None, fps = None, preset = None,
      hardwareAccel = None, hwaccelDevice = None\<rparr>"

definition demo_request :: transcode_request where
  "demo_request =
     \<lparr>req_inputFile = ''/in/a.mov'', req_outputFile = ''/out/a.mov'', req_options = copy_options\<rparr>"

text \<open>
  The task and the command that \<open>startTranscode demo_env demo_request\<close> creates in the
  empty manager, and the states the task goes through in the examples below.
\<close>

definition demo_task :: TranscodeTask where
  "demo_task =
     \<lparr>task_id = ''task_5_abc'', inputFile = ''/in/a.mov'', outputFile = ''/out/a_5.mp4'',
      options = copy_options, status = Running, progress = Num 0, startTime = Some 5,
      endTime = None, error = None, command = Some 0, logs = []\<rparr>"

definition demo_command :: ffcommand where
  "demo_command =
     \<lparr>cmd_input = ''/in/a.mov'',
      cmd_ops = [Output ''/out/a_5.mp4'', Format ''mp4'',
                 OutputOptions [''-c'', ''copy'', ''-avoid_negative_ts'', ''make_zero'',
                                ''-fflags'', ''+genpts'']],
      cmd_task = ''task_5_abc'', cmd_handlers = StartHandlers ''/out/a.mov'',
      cmd_running = True, cmd_kills = []\<rparr>"

definition running_state :: manager where
  "running_state =
     \<lparr>tasks = [''task_5_abc'' \<mapsto> demo_task], commands = [demo_command], globalLogs = [],
      sent = [], files = {''/out''}, deleteTimers = []\<rparr>"

definition paused_state :: manager where
  "paused_state =
     \<lparr>tasks = [''task_5_abc'' \<mapsto> demo_task\<lparr>status := Paused, endTime := Some 5\<rparr>],
      commands = [demo_command\<lparr>cmd_kills := [''SIGTERM'']\<rparr>], globalLogs = [],
      sent = [StatusUpdate ''task_5_abc'' (Num 0) Paused], files = {''/out''},
      deleteTimers = []\<rparr>"

definition cancelled_state :: manager where
  "cancelled_state =
     \<lparr>tasks = [''task_5_abc'' \<mapsto> demo_task\<lparr>status := Pending, endTime := Some 5\<rparr>],
      commands = [demo_command\<lparr>cmd_kills := [''SIGTERM'']\<rparr>], globalLogs = [],
      sent = [StatusUpdate ''task_5_abc'' (Num 0) Pending], files = {''/out''},
      deleteTimers = [''/out/a_5.mp4'']\<rparr>"

definition completed_state :: manager where
  "completed_state =
     \<lparr>tasks = [''task_5_abc'' \<mapsto>
                 demo_task\<lparr>status := Completed, progress := Num 100, endTime := Some 5\<rparr>],
      commands = [demo_command], globalLogs = [],
      sent = [StatusUpdate ''task_5_abc'' (Num 100) Completed,
              CompletedNote ''task_5_abc'' ''/out/a_5.mp4'' 0 0 0 0],
      files = {''/out/a_5.mp4'', ''/out''}, deleteTimers = []\<rparr>"

definition demo_sample :: raw_progress where
  "demo_sample =
     \<lparr>percent = Some (Num 150), timemark = Some ''00:00:07.50'', currentFps = None,
      currentKbps = None, targetSize = None\<rparr>"

text \<open>
  An environment in which the probe process writes a line and then hangs, so that the
  timer fires after 10 seconds.
\<close>

definition timeout_env :: env where
  "timeout_env = demo_env\<lparr>probe_events :=
     [(6, StderrData ''ffmpeg version 6.0''), (10005, TimeoutFired), (10006, Close None)]\<rparr>"

text \<open>An environment in which every \<open>unlinkSync\<close> raises (the file is locked).\<close>

definition locked_env :: env where
  "locked_env = demo_env\<lparr>unlink_throws := (\<lambda>i. True)\<rparr>"

text \<open>A percent value lies in the range of a percentage.\<close>

fun in_percent_range :: "jsnum \<Rightarrow> bool" where
  "in_percent_range (Num r) = (0 \<le> r \<and> r \<le> 100)"
| "in_percent_range NaN = False"
| "in_percent_range PosInfinity = False"
| "in_percent_range NegInfinity = False"

section \<open>Facts about the concrete states\<close>

lemmas demo_defs = demo_env_def demo_request_def copy_options_def demo_basename_def
  demo_dirname_def demo_extname_def demo_basename_ext_def demo_join_def empty_manager_def
  demo_task_def demo_command_def running_state_def paused_state_def cancelled_state_def
  completed_state_def demo_sample_def timeout_env_def locked_env_def

lemma freeOutputFile_free: "cur \<notin> fs \<Longrightarrow> freeOutputFile e fs out cur n = Some cur"
  by (subst freeOutputFile.simps) simp

lemma demo_start:
  "startTranscode demo_env demo_request empty_manager = Some (Inr (''task_5_abc'', running_state))"
  by (simp add: startTranscode_def safeOutputFile_def demo_defs safeName_def is_word_char_def
      is_space_char_def formatExt_def dec_nat.simps digit_char_def generateTaskId_def
      isStreamCopy_def arr_includes_def streamCopyFormats_def freeOutputFile_free launch_def
      update_task_def formatName_def startCopyOps_def Let_def)

lemma demo_pause: "pauseTranscode demo_env ''task_5_abc'' running_state = (True, paused_state)"
  by (simp add: pauseTranscode_def demo_defs kill_command_def update_task_def send_all_def Let_def)

lemma demo_cancel: "cancelTranscode demo_env ''task_5_abc'' running_state = (True, cancelled_state)"
  by (simp add: cancelTranscode_def demo_defs kill_command_def update_task_def send_all_def Let_def)

lemma demo_end: "on_end demo_env 0 (encoder_writes ''/out/a_5.mp4'' running_state) = completed_state"
  by (simp add: on_end_def encoder_writes_def demo_defs update_task_def send_all_def Let_def fileSizes_def)

text \<open>
  The concrete states are reached by the manager's own operations: the submission into
  the empty manager gives \<open>running_state\<close>, and pause, cancel and the end event lead
  from there to the other states.
\<close>

section \<open>What an operation leaves unchanged\<close>

lemma log_frame [simp]:
  "commands (log t lv cat msg tid s) = commands s"
  "sent (log t lv cat msg tid s) = sent s"
  "files (log t lv cat msg tid s) = files s"
  "deleteTimers (log t lv cat msg tid s) = deleteTimers s"
  by (auto simp: log_def Let_def split: option.splits)

lemma log_tasks_None [simp]: "tasks (log t lv cat msg None s) = tasks s"
  by (simp add: log_def Let_def)


lemma send_all_frame [simp]:
  "tasks (send_all e ns s) = tasks s"
  "commands (send_all e ns s) = commands s"
  "files (send_all e ns s) = files s"
  "globalLogs (send_all e ns s) = globalLogs s"
  "deleteTimers (send_all e ns s) = deleteTimers s"
  by (auto simp: send_all_def)

lemma update_task_frame [simp]:
  "commands (update_task k f s) = commands s"
  "sent (update_task k f s) = sent s"
  "files (update_task k f s) = files s"
  "globalLogs (update_task k f s) = globalLogs s"
  "deleteTimers (update_task k f s) = deleteTimers s"
  by (auto simp: update_task_def split: option.splits)






section \<open>What a submission does\<close>











section \<open>Hardware encoder validation\<close>








section \<open>Stream copy\<close>



text \<open>
  A remark on the resume path: \<open>applyTranscodeOptions\<close> tests only the two codecs and the
  container, so for a job that asks for a resolution it selects the stream copy although
  the submission did not.
\<close>

lemma resume_stream_copy_test_is_weaker:
  "isStreamCopy_apply (copy_options\<lparr>resolution := Some ''1280x720''\<rparr>) \<and>
   \<not> isStreamCopy (copy_options\<lparr>resolution := Some ''1280x720''\<rparr>)"
  by (simp add: isStreamCopy_apply_def isStreamCopy_def copy_options_def arr_includes_def)

section \<open>The caller's commands on a job\<close>

text \<open>
  Claim C10. Whenever \<open>pauseTranscode\<close> returns false because the job id is unknown, the
  job has no command, or its state is not running, the whole state of the manager is the
  one before the call: no field of any job is changed and nothing is sent to the window.
  The second conjunct says the same of every call that returns false, whatever the
  reason (also when sending the signal raises).
\<close>

theorem pause_false_leaves_state_unchanged:
  "(tasks s taskId = None \<or>
    (\<exists>task. tasks s taskId = Some task \<and> (command task = None \<or> status task \<noteq> Running))
      \<longrightarrow> pauseTranscode e taskId s = (False, s)) \<and>
   (\<not> fst (pauseTranscode e taskId s) \<longrightarrow> snd (pauseTranscode e taskId s) = s)"
  by (auto simp: pauseTranscode_def Let_def split: option.splits)

text \<open>
  C10 at concrete inputs: pausing the already paused job, and pausing an unknown job.
\<close>

theorem pause_false_leaves_state_unchanged_witness:
  "pauseTranscode demo_env ''task_5_abc'' paused_state = (False, paused_state) \<and>
   pauseTranscode demo_env ''no_such_task'' paused_state = (False, paused_state)"
proof -
  have h1: "tasks paused_state ''task_5_abc'' = None \<or>
    (\<exists>task. tasks paused_state ''task_5_abc'' = Some task \<and>
       (command task = None \<or> status task \<noteq> Running))"
    by (simp add: demo_defs)
  have h2: "tasks paused_state ''no_such_task'' = None \<or>
    (\<exists>task. tasks paused_state ''no_such_task'' = Some task \<and>
       (command task = None \<or> status task \<noteq> Running))"
    by (simp add: demo_defs)
  from h1 h2 pause_false_leaves_state_unchanged [of paused_state "''task_5_abc''" demo_env]
    pause_false_leaves_state_unchanged [of paused_state "''no_such_task''" demo_env]
  show ?thesis by blast
qed

text \<open>
  Claim C3, as stated, at a concrete input: the job cancelled once is in \<open>Pending\<close> and
  still has its command; cancelling it again returns true, schedules a second deletion
  and changes the state of the manager.
\<close>

theorem cancel_pending_counterexample:
  "cancelTranscode demo_env ''task_5_abc'' running_state = (True, cancelled_state) \<and>
   map_option status (tasks cancelled_state ''task_5_abc'') = Some Pending \<and>
   fst (cancelTranscode demo_env ''task_5_abc'' cancelled_state) = True \<and>
   deleteTimers (snd (cancelTranscode demo_env ''task_5_abc'' cancelled_state)) =
     [''/out/a_5.mp4'', ''/out/a_5.mp4''] \<and>
   snd (cancelTranscode demo_env ''task_5_abc'' cancelled_state) \<noteq> cancelled_state"
proof -
  have t: "deleteTimers (snd (cancelTranscode demo_env ''task_5_abc'' cancelled_state)) =
     [''/out/a_5.mp4'', ''/out/a_5.mp4'']"
    by (simp add: cancelTranscode_def demo_defs kill_command_def update_task_def send_all_def Let_def)
  have d: "deleteTimers cancelled_state = [''/out/a_5.mp4'']" by (simp add: demo_defs)
  have ne: "snd (cancelTranscode demo_env ''task_5_abc'' cancelled_state) \<noteq> cancelled_state"
    using t d by auto
  have f: "fst (cancelTranscode demo_env ''task_5_abc'' cancelled_state) = True"
    by (simp add: cancelTranscode_def demo_defs kill_command_def update_task_def send_all_def Let_def)
  have p: "map_option status (tasks cancelled_state ''task_5_abc'') = Some Pending"
    by (simp add: demo_defs)
  from demo_cancel t ne f p show ?thesis by simp
qed

text \<open>
  Claim C3, amended. Cancelling a job that has no encoder command (a job still pending
  inside its submission) returns false and changes nothing; cancelling a running job with
  its command, when sending the signal does not raise, returns true and leaves the job in
  \<open>Pending\<close> with progress 0.
\<close>

theorem cancel_without_command_and_cancel_running:
  assumes "tasks s taskId = Some task"
  shows "(command task = None \<longrightarrow> cancelTranscode e taskId s = (False, s)) \<and>
         (status task = Running \<and> command task \<noteq> None \<and> \<not> kill_throws e \<longrightarrow>
            fst (cancelTranscode e taskId s) = True \<and>
            tasks (snd (cancelTranscode e taskId s)) taskId =
              Some (task\<lparr>status := Pending, progress := Num 0, endTime := Some (now e)\<rparr>))"
  using assms
  by (auto simp: cancelTranscode_def kill_command_def update_task_def send_all_def Let_def)

text \<open>C3 (amended) at concrete inputs: a pending job without a command, and the running job.\<close>

theorem cancel_without_command_and_cancel_running_witness:
  "cancelTranscode demo_env ''task_5_abc''
     (running_state\<lparr>tasks := [''task_5_abc'' \<mapsto> demo_task\<lparr>status := Pending, command := None\<rparr>]\<rparr>)
   = (False, running_state\<lparr>tasks := [''task_5_abc'' \<mapsto> demo_task\<lparr>status := Pending, command := None\<rparr>]\<rparr>) \<and>
   fst (cancelTranscode demo_env ''task_5_abc'' running_state) = True \<and>
   tasks (snd (cancelTranscode demo_env ''task_5_abc'' running_state)) ''task_5_abc'' =
     Some (demo_task\<lparr>status := Pending, progress := Num 0, endTime := Some 5\<rparr>)"
proof -
  have a: "tasks (running_state\<lparr>tasks := [''task_5_abc'' \<mapsto> demo_task\<lparr>status := Pending, command := None\<rparr>]\<rparr>)
             ''task_5_abc'' = Some (demo_task\<lparr>status := Pending, command := None\<rparr>)"
    by simp
  have b: "tasks running_state ''task_5_abc'' = Some demo_task" by (simp add: demo_defs)
  have c: "status demo_task = Running \<and> command demo_task \<noteq> None \<and> \<not> kill_throws demo_env"
    by (simp add: demo_defs)
  have d: "command (demo_task\<lparr>status := Pending, command := None\<rparr>) = None" by simp
  from cancel_without_command_and_cancel_running [OF a, of demo_env]
       cancel_without_command_and_cancel_running [OF b, of demo_env] c d
  show ?thesis by (simp add: demo_env_def)
qed




text \<open>
  Claim C1 at its failing input. The job is submitted and runs to completion (the end
  event arrives), so its state is \<open>Completed\<close>. \<open>cancelTranscode\<close> on it returns true,
  puts the job back to \<open>Pending\<close> with progress 0, and schedules the deletion of the
  finished output file, which the timer then deletes.
\<close>

theorem cancel_resets_completed_job:
  "startTranscode demo_env demo_request empty_manager = Some (Inr (''task_5_abc'', running_state)) \<and>
   on_end demo_env 0 (encoder_writes ''/out/a_5.mp4'' running_state) = completed_state \<and>
   map_option status (tasks completed_state ''task_5_abc'') = Some Completed \<and>
   fst (cancelTranscode demo_env ''task_5_abc'' completed_state) = True \<and>
   tasks (snd (cancelTranscode demo_env ''task_5_abc'' completed_state)) ''task_5_abc'' =
     Some (demo_task\<lparr>status := Pending, progress := Num 0, endTime := Some 5\<rparr>) \<and>
   deleteTimers (snd (cancelTranscode demo_env ''task_5_abc'' completed_state)) = [''/out/a_5.mp4''] \<and>
   ''/out/a_5.mp4'' \<in> files completed_state \<and>
   ''/out/a_5.mp4'' \<notin>
     files (on_delete_timer demo_env (snd (cancelTranscode demo_env ''task_5_abc'' completed_state)))"
  by (simp add: demo_start demo_end)
     (simp add: cancelTranscode_def on_delete_timer_def safeDeleteFile_def demo_defs kill_command_def
        update_task_def send_all_def Let_def numeral_3_eq_3)

section \<open>The encoder's events\<close>

text \<open>
  Claim C2, as stated, at a concrete input: the running job is paused, and then the end
  event of its command arrives; the job becomes \<open>Completed\<close> with progress 100.
\<close>

theorem end_while_paused_counterexample:
  "pauseTranscode demo_env ''task_5_abc'' running_state = (True, paused_state) \<and>
   map_option status (tasks paused_state ''task_5_abc'') = Some Paused \<and>
   map_option status (tasks (on_end demo_env 0 paused_state) ''task_5_abc'') = Some Completed \<and>
   map_option progress (tasks (on_end demo_env 0 paused_state) ''task_5_abc'') = Some (Num 100)"
  by (simp add: demo_pause) (simp add: on_end_def demo_defs update_task_def send_all_def Let_def fileSizes_def)

text \<open>
  Claim C2, amended. An end event puts the job of the command into \<open>Completed\<close> with
  progress 100 and the clock as end time, whatever the state of the job is when the event
  arrives; the end handler does not look at the state.
\<close>

theorem end_event_always_completes:
  assumes "c < length (commands s)"
    and "tasks s (cmd_task (commands s ! c)) = Some task"
  shows "tasks (on_end e c s) (cmd_task (commands s ! c)) =
           Some (task\<lparr>status := Completed, progress := Num 100, endTime := Some (now e)\<rparr>)"
  using assms
  by (auto simp: on_end_def update_task_def send_all_def Let_def split: handler_kind.splits option.splits)

text \<open>C2 (amended) at a concrete input: the end event arriving at the cancelled (pending) job.\<close>

theorem end_event_always_completes_witness:
  "tasks (on_end demo_env 0 cancelled_state) ''task_5_abc'' =
     Some (demo_task\<lparr>status := Completed, progress := Num 100, endTime := Some 5\<rparr>)"
proof -
  have a: "(0::nat) < length (commands cancelled_state)" by (simp add: demo_defs)
  have b: "tasks cancelled_state (cmd_task (commands cancelled_state ! 0)) =
             Some (demo_task\<lparr>status := Pending, endTime := Some 5\<rparr>)"
    by (simp add: demo_defs)
  from end_event_always_completes [OF a b, of demo_env]
  show ?thesis by (simp add: demo_defs)
qed

text \<open>
  Claim C4, as stated, at a concrete input: a progress sample with percent 150 is stored
  on the job and sent to the window as 150.
\<close>

theorem progress_out_of_range_counterexample:
  "percent demo_sample = Some (Num 150) \<and>
   map_option progress (tasks (on_progress demo_env 0 demo_sample running_state) ''task_5_abc'')
     = Some (Num 150) \<and>
   sent (on_progress demo_env 0 demo_sample running_state)
     = [ProgressSample ''task_5_abc'' (Num 150) Running (Some ''00:00:07.50'') None None None ''none''] \<and>
   \<not> in_percent_range (Num 150)"
  by (simp add: on_progress_def demo_defs update_task_def send_all_def Let_def)

text \<open>
  Claim C4, amended. The percent stored on the job and sent to the window is the raw
  percent when that is present and truthy, and 0 otherwise (a missing percent gives 0,
  nothing is raised); it is not clamped, so it lies in [0,100] exactly when the raw
  percent, if present and truthy, does.
\<close>

theorem progress_percent_is_stored_unclamped:
  assumes "c < length (commands s)"
    and "tasks s (cmd_task (commands s ! c)) = Some task"
  shows "tasks (on_progress e c raw s) (cmd_task (commands s ! c)) =
           Some (task\<lparr>progress := num_or (percent raw) (Num 0), status := Running\<rparr>) \<and>
         (has_window e \<longrightarrow>
            sent (on_progress e c raw s) =
              sent s @ [ProgressSample (cmd_task (commands s ! c)) (num_or (percent raw) (Num 0))
                          Running (timemark raw) (currentFps raw) (currentKbps raw) (targetSize raw)
                          (str_or (hardwareAccel (options task)) ''none'')]) \<and>
         (percent raw = None \<longrightarrow> num_or (percent raw) (Num 0) = Num 0) \<and>
         (in_percent_range (num_or (percent raw) (Num 0)) \<longleftrightarrow>
            (\<forall>p. percent raw = Some p \<and> truthy_num p \<longrightarrow> in_percent_range p))"
proof -
  have range: "in_percent_range (num_or (percent raw) (Num 0)) \<longleftrightarrow>
            (\<forall>p. percent raw = Some p \<and> truthy_num p \<longrightarrow> in_percent_range p)"
    by (cases "percent raw") auto
  from assms range show ?thesis
    by (auto simp: on_progress_def update_task_def send_all_def Let_def)
qed

text \<open>C4 (amended) at a concrete input: a sample without a percent field.\<close>

theorem progress_percent_is_stored_unclamped_witness:
  "tasks (on_progress demo_env 0 (demo_sample\<lparr>percent := None\<rparr>) running_state) ''task_5_abc'' =
     Some (demo_task\<lparr>progress := Num 0, status := Running\<rparr>) \<and>
   sent (on_progress demo_env 0 (demo_sample\<lparr>percent := None\<rparr>) running_state) =
     [ProgressSample ''task_5_abc'' (Num 0) Running (Some ''00:00:07.50'') None None None ''none'']"
proof -
  have a: "(0::nat) < length (commands running_state)" by (simp add: demo_defs)
  have b: "tasks running_state (cmd_task (commands running_state ! 0)) = Some demo_task"
    by (simp add: demo_defs)
  from progress_percent_is_stored_unclamped [OF a b, of demo_env "demo_sample\<lparr>percent := None\<rparr>"]
  show ?thesis by (simp add: demo_defs)
qed

text \<open>
  Claim C6. When an error event arrives while the job of the command is \<open>Paused\<close>, or
  while it is \<open>Pending\<close> and the message contains \<open>SIGTERM\<close>, the handler returns at
  once: the state of the manager stays as it is, so the job's state and progress are
  unchanged and no message goes to the window.
\<close>

theorem benign_error_is_suppressed:
  assumes "c < length (commands s)"
    and "tasks s (cmd_task (commands s ! c)) = Some task"
    and "status task = Paused \<or> (status task = Pending \<and> msg = Some m \<and> js_includes m ''SIGTERM'')"
  shows "on_error e c msg s = Some s"
  using assms by (cases m) (auto simp: on_error_def Let_def)

text \<open>
  C6 at concrete inputs: the error of the killed process arriving at the paused job and
  at the cancelled job.
\<close>

theorem benign_error_is_suppressed_witness:
  "on_error demo_env 0 (Some ''ffmpeg was killed with signal SIGTERM'') paused_state = Some paused_state \<and>
   on_error demo_env 0 (Some ''ffmpeg was killed with signal SIGTERM'') cancelled_state = Some cancelled_state"
proof -
  have a: "(0::nat) < length (commands paused_state)" by (simp add: demo_defs)
  have b: "tasks paused_state (cmd_task (commands paused_state ! 0)) =
             Some (demo_task\<lparr>status := Paused, endTime := Some 5\<rparr>)"
    by (simp add: demo_defs)
  have c: "status (demo_task\<lparr>status := Paused, endTime := Some 5\<rparr>) = Paused \<or>
           (status (demo_task\<lparr>status := Paused, endTime := Some 5\<rparr>) = Pending \<and>
            Some ''ffmpeg was killed with signal SIGTERM'' = Some ''ffmpeg was killed with signal SIGTERM'' \<and>
            js_includes ''ffmpeg was killed with signal SIGTERM'' ''SIGTERM'')"
    by simp
  have a': "(0::nat) < length (commands cancelled_state)" by (simp add: demo_defs)
  have b': "tasks cancelled_state (cmd_task (commands cancelled_state ! 0)) =
             Some (demo_task\<lparr>status := Pending, endTime := Some 5\<rparr>)"
    by (simp add: demo_defs)
  have c': "status (demo_task\<lparr>status := Pending, endTime := Some 5\<rparr>) = Paused \<or>
           (status (demo_task\<lparr>status := Pending, endTime := Some 5\<rparr>) = Pending \<and>
            Some ''ffmpeg was killed with signal SIGTERM'' = Some ''ffmpeg was killed with signal SIGTERM'' \<and>
            js_includes ''ffmpeg was killed with signal SIGTERM'' ''SIGTERM'')"
    by simp
  from benign_error_is_suppressed [OF a b c] benign_error_is_suppressed [OF a' b' c']
  show ?thesis by simp
qed

end
